theory Spec2Isabelle
  imports Complex_Main
begin

section \<open>Data quality tests of evidently: the data model\<close>

text \<open>
  Source: \<^verbatim>\<open>src/evidently/tests/data_quality_tests.py\<close>.
  Python's \<^verbatim>\<open>Numeric = Union[float, int]\<close> is read as \<^typ>\<open>real\<close>: the
  properties below are about comparisons and about which branch is taken, not about
  rounding. Every method of the module reads \<^verbatim>\<open>self.metric.get_result()\<close>; the
  runner calculates a metric before it runs the tests bound to it, so the methods below
  take the computed result as an argument. An exception is a value \<open>Inl e\<close>.
\<close>

datatype error = ValueError string | KeyError string | TypeError

datatype Status = SUCCESS | FAIL | ERROR | SKIPPED

text \<open>
  A description is an f-string. Its literal text (with interpolated strings) is kept as
  text; an interpolated number is kept with its format specification, since the
  rendering of a float is not modelled.
\<close>

datatype fragment =
    Lit string
  | Num real      \<comment> \<open>\<^verbatim>\<open>{x}\<close>\<close>
  | Num3g real    \<comment> \<open>\<^verbatim>\<open>{x:.3g}\<close>\<close>

text \<open>
  Modelled from the spec: \<^verbatim>\<open>TestResult\<close> (evidently/tests/base_test.py) is
  not among the sources. Section 3 of the specification gives its fields: name,
  description, status (one of SUCCESS, FAIL, ERROR, SKIPPED) and groups, a mapping from
  group dimension to group value; a mapping with at most one key is kept as an
  association list. \<^verbatim>\<open>mark_as_fail(description)\<close> and
  \<^verbatim>\<open>mark_as_error(description)\<close> set the status their name gives and replace
  the description.
\<close>

record 'g TestResult =
  name :: string
  description :: "fragment list"
  status :: Status
  groups :: "(string \<times> 'g) list"

definition mark_as_fail :: "fragment list \<Rightarrow> 'g TestResult \<Rightarrow> 'g TestResult" where
  "mark_as_fail d result = result\<lparr>status := FAIL, description := d\<rparr>"

definition mark_as_error :: "fragment list \<Rightarrow> 'g TestResult \<Rightarrow> 'g TestResult" where
  "mark_as_error d result = result\<lparr>status := ERROR, description := d\<rparr>"

text \<open>
  Modelled from the spec: \<^verbatim>\<open>GroupingTypes.ByFeature.id\<close> (base_test.py) is not
  among the sources; section 3 of the specification shows the key in
  \<^verbatim>\<open>{"by_feature": "age"}\<close>.
\<close>

definition ByFeature_id :: string where
  "ByFeature_id = ''by_feature''"

text \<open>
  Modelled from the spec: the statistics classes of \<^verbatim>\<open>DataQualityMetrics\<close> are
  not among the sources. \<^verbatim>\<open>FeatureQualityStats\<close> has the fields the tests read,
  each of which may be \<^verbatim>\<open>None\<close> (the tests and their renderers check for it);
  \<^verbatim>\<open>min\<close> and \<^verbatim>\<open>max\<close> may also be strings (the tests check
  \<^verbatim>\<open>isinstance(min_value, str)\<close>); a Python \<^verbatim>\<open>bool\<close> is a number. \<^verbatim>\<open>DataQualityStats\<close> is read through
  \<^verbatim>\<open>get_all_features()\<close>, a dictionary from column name to statistics, and through
  \<^verbatim>\<open>stats[column]\<close>, the same lookup; an object of the class is truthy.
\<close>

datatype Scalar = Number real | Text string

record FeatureQualityStats =
  min_value :: "Scalar option"
  max_value :: "Scalar option"
  mean :: "real option"
  percentile_50 :: "real option"
  std :: "real option"
  unique_count :: "real option"
  unique_percentage :: "real option"
  most_common_value_percentage :: "real option"

type_synonym DataQualityStats = "string \<rightharpoonup> FeatureQualityStats"

record DataQualityMetricsResults =
  features_stats :: DataQualityStats
  reference_features_stats :: "DataQualityStats option"

text \<open>The metric object a test depends on: \<^verbatim>\<open>DataQualityMetrics()\<close> has no parameters.\<close>

datatype DataQualityMetrics = DataQualityMetrics

text \<open>
  Modelled from the spec: \<^verbatim>\<open>DatasetColumns\<close> (evidently/utils/data_operations.py)
  is not among the sources; section 4.3 calls it the column catalogue, the lists of
  feature names.
\<close>

record DatasetColumns =
  num_feature_names :: "string list"
  cat_feature_names :: "string list"

section \<open>TestMeanInNSigmas\<close>

record TestMeanInNSigmas =
  column_name :: string
  n_sigmas :: int
  metric :: DataQualityMetrics

definition TestMeanInNSigmas_name :: string where
  "TestMeanInNSigmas_name = ''Mean Value Stability''"

definition TestMeanInNSigmas_init ::
  "string \<Rightarrow> int \<Rightarrow> DataQualityMetrics option \<Rightarrow> TestMeanInNSigmas" where
  "TestMeanInNSigmas_init column n m =
     \<lparr>column_name = column, n_sigmas = n,
      metric = (case m of Some given \<Rightarrow> given | None \<Rightarrow> DataQualityMetrics)\<rparr>"

text \<open>The two branches of \<^verbatim>\<open>check\<close> that evaluate the mean build the same description.\<close>

definition mean_description :: "string \<Rightarrow> real \<Rightarrow> real \<Rightarrow> real \<Rightarrow> fragment list" where
  "mean_description column current_mean left_condition right_condition =
     [Lit (''The mean value of the column **'' @ column @ ''** is ''), Num3g current_mean,
      Lit ''. The expected range is from '', Num3g left_condition,
      Lit '' to '', Num3g right_condition]"

text \<open>
  \<^verbatim>\<open>TestMeanInNSigmas.check\<close>. Arithmetic or comparison with a statistic that is
  \<^verbatim>\<open>None\<close> raises \<^verbatim>\<open>TypeError\<close> in Python.
\<close>

definition TestMeanInNSigmas_check ::
  "TestMeanInNSigmas \<Rightarrow> DataQualityMetricsResults \<Rightarrow> error + string TestResult" where
  "TestMeanInNSigmas_check self r =
     (case reference_features_stats r of
        None \<Rightarrow> Inl (ValueError ''Reference should be present'')
      | Some reference_feature_stats \<Rightarrow>
         (case features_stats r (column_name self) of
            None \<Rightarrow>
              Inr \<lparr>name = TestMeanInNSigmas_name,
                   description = [Lit (''Column '' @ column_name self @ '' should be in current data'')],
                   status = ERROR,
                   groups = [(ByFeature_id, column_name self)]\<rparr>
          | Some current_stats \<Rightarrow>
             (case reference_feature_stats (column_name self) of
                None \<Rightarrow>
                  Inr \<lparr>name = TestMeanInNSigmas_name,
                       description = [Lit (''Column '' @ column_name self @ '' should be in reference data'')],
                       status = ERROR,
                       groups = [(ByFeature_id, column_name self)]\<rparr>
              | Some reference_stats \<Rightarrow>
                 (case (mean current_stats, mean reference_stats, std reference_stats) of
                    (Some current_mean, Some reference_mean, Some reference_std) \<Rightarrow>
                      (let sigmas_value = reference_std * of_int (n_sigmas self);
                           left_condition = reference_mean - sigmas_value;
                           right_condition = reference_mean + sigmas_value
                       in Inr \<lparr>name = TestMeanInNSigmas_name,
                               description = mean_description (column_name self) current_mean
                                               left_condition right_condition,
                               status = (if left_condition < current_mean \<and> current_mean < right_condition
                                         then SUCCESS else FAIL),
                               groups = [(ByFeature_id, column_name self)]\<rparr>)
                  | _ \<Rightarrow> Inl TypeError))))"

text \<open>\<^verbatim>\<open>TestNumColumnsMeanInNSigmas.generate_tests\<close>: a list comprehension.\<close>

definition TestNumColumnsMeanInNSigmas_generate_tests ::
  "DatasetColumns \<Rightarrow> TestMeanInNSigmas list" where
  "TestNumColumnsMeanInNSigmas_generate_tests columns_info =
     map (\<lambda>name. TestMeanInNSigmas_init name 2 None) (num_feature_names columns_info)"

section \<open>Conditions\<close>

text \<open>
  Modelled from the spec: \<^verbatim>\<open>TestValueCondition\<close> (base_test.py) and
  \<^verbatim>\<open>approx\<close> (evidently/tests/utils.py) are not among the sources. Section 3 of
  the specification: a condition is a conjunction of zero or more of eq, not_eq, gt, gte,
  lt, lte, is_in, not_in; each field is optional, and a condition with no field set means
  that no threshold was configured; eq and not_eq may wrap a value in an approximation
  carrying an absolute or a relative tolerance, under which equality means
  \<open>\<bar>actual - expected\<bar> \<le> max absolute (relative * \<bar>expected\<bar>)\<close>. The wrapper keeps
  what it is given (the wrapped value may be \<^verbatim>\<open>None\<close>, when a statistic is); a
  tolerance that is not given counts as 0. In \<^verbatim>\<open>approx(x, 0.1)\<close> the second
  positional argument is the relative tolerance, as the keyword calls
  \<^verbatim>\<open>approx(x, relative=0.1)\<close> of the sibling tests have it.
\<close>

datatype ApproxValue =
  ApproxValue (approx_value: "real option") (relative: "real option") (absolute: "real option")

definition approx :: "real option \<Rightarrow> real option \<Rightarrow> real option \<Rightarrow> ApproxValue" where
  "approx v rel ab = ApproxValue v rel ab"

datatype Target = Exact real | Approx ApproxValue

record TestValueCondition =
  eq :: "Target option"
  gt :: "real option"
  gte :: "real option"
  is_in :: "Scalar list option"
  lt :: "real option"
  lte :: "real option"
  not_eq :: "Target option"
  not_in :: "Scalar list option"

text \<open>\<^verbatim>\<open>TestValueCondition()\<close>: no field given.\<close>

definition no_condition :: TestValueCondition where
  "no_condition =
     \<lparr>eq = None, gt = None, gte = None, is_in = None, lt = None, lte = None,
      not_eq = None, not_in = None\<rparr>"

definition has_condition :: "TestValueCondition \<Rightarrow> bool" where
  "has_condition c \<longleftrightarrow>
     eq c \<noteq> None \<or> gt c \<noteq> None \<or> gte c \<noteq> None \<or> is_in c \<noteq> None \<or>
     lt c \<noteq> None \<or> lte c \<noteq> None \<or> not_eq c \<noteq> None \<or> not_in c \<noteq> None"

text \<open>
  Modelled from the spec: the constructor of \<^verbatim>\<open>BaseCheckValueTest\<close> (base_test.py,
  not among the sources) keeps the eight keyword arguments as the test's condition.
\<close>

definition BaseCheckValueTest_init ::
  "Target option \<Rightarrow> real option \<Rightarrow> real option \<Rightarrow> Scalar list option \<Rightarrow> real option \<Rightarrow>
   real option \<Rightarrow> Target option \<Rightarrow> Scalar list option \<Rightarrow> TestValueCondition" where
  "BaseCheckValueTest_init eq' gt' gte' is_in' lt' lte' not_eq' not_in' =
     \<lparr>eq = eq', gt = gt', gte = gte', is_in = is_in', lt = lt', lte = lte',
      not_eq = not_eq', not_in = not_in'\<rparr>"




section \<open>Correlation tests\<close>

text \<open>
  Modelled from the spec: the result of \<^verbatim>\<open>DataQualityCorrelationMetrics\<close> is not
  among the sources. It has a current part and an optional reference part, each with
  the four correlation figures the tests read, which may be \<^verbatim>\<open>None\<close>, and a
  correlation matrix. The matrix is a list of rows; the current and the reference
  matrix are taken over the same columns in the same order.
\<close>

record DataCorrelation =
  target_prediction_correlation :: "real option"
  abs_max_num_features_correlation :: "real option"
  abs_max_target_features_correlation :: "real option"
  abs_max_prediction_features_correlation :: "real option"
  correlation_matrix :: "real list list"

record DataQualityCorrelationMetricsResults =
  current :: DataCorrelation
  reference :: "DataCorrelation option"

definition TestTargetPredictionCorrelation_get_condition ::
  "TestValueCondition \<Rightarrow> DataQualityCorrelationMetricsResults \<Rightarrow> error + TestValueCondition" where
  "TestTargetPredictionCorrelation_get_condition condition r =
     (if has_condition condition then Inr condition
      else case reference r of
        None \<Rightarrow> Inr (no_condition\<lparr>gt := Some 0\<rparr>)
      | Some reference_correlation \<Rightarrow>
         (case target_prediction_correlation reference_correlation of
            None \<Rightarrow> Inr (no_condition\<lparr>gt := Some 0\<rparr>)
          | Some v \<Rightarrow> Inr (no_condition\<lparr>eq := Some (Approx (approx (Some v) None (Some 0.25)))\<rparr>)))"

definition TestHighlyCorrelatedFeatures_get_condition ::
  "TestValueCondition \<Rightarrow> DataQualityCorrelationMetricsResults \<Rightarrow> error + TestValueCondition" where
  "TestHighlyCorrelatedFeatures_get_condition condition r =
     (if has_condition condition then Inr condition
      else case reference r of
        None \<Rightarrow> Inr (no_condition\<lparr>lt := Some 0.9\<rparr>)
      | Some reference_correlation \<Rightarrow>
         (case abs_max_num_features_correlation reference_correlation of
            None \<Rightarrow> Inr (no_condition\<lparr>lt := Some 0.9\<rparr>)
          | Some v \<Rightarrow> Inr (no_condition\<lparr>eq := Some (Approx (approx (Some v) (Some 0.1) None))\<rparr>)))"

definition TestTargetFeaturesCorrelations_get_condition ::
  "TestValueCondition \<Rightarrow> DataQualityCorrelationMetricsResults \<Rightarrow> error + TestValueCondition" where
  "TestTargetFeaturesCorrelations_get_condition condition r =
     (if has_condition condition then Inr condition
      else case reference r of
        None \<Rightarrow> Inr (no_condition\<lparr>lt := Some 0.9\<rparr>)
      | Some reference_correlation \<Rightarrow>
         (case abs_max_target_features_correlation reference_correlation of
            None \<Rightarrow> Inr (no_condition\<lparr>lt := Some 0.9\<rparr>)
          | Some v \<Rightarrow> Inr (no_condition\<lparr>eq := Some (Approx (approx (Some v) (Some 0.1) None))\<rparr>)))"

definition TestPredictionFeaturesCorrelations_get_condition ::
  "TestValueCondition \<Rightarrow> DataQualityCorrelationMetricsResults \<Rightarrow> error + TestValueCondition" where
  "TestPredictionFeaturesCorrelations_get_condition condition r =
     (if has_condition condition then Inr condition
      else case reference r of
        None \<Rightarrow> Inr (no_condition\<lparr>lt := Some 0.9\<rparr>)
      | Some reference_correlation \<Rightarrow>
         (case abs_max_prediction_features_correlation reference_correlation of
            None \<Rightarrow> Inr (no_condition\<lparr>lt := Some 0.9\<rparr>)
          | Some v \<Rightarrow> Inr (no_condition\<lparr>eq := Some (Approx (approx (Some v) (Some 0.1) None))\<rparr>)))"

definition TestCorrelationChanges_get_condition ::
  "TestValueCondition \<Rightarrow> DataQualityCorrelationMetricsResults \<Rightarrow> error + TestValueCondition" where
  "TestCorrelationChanges_get_condition condition r =
     (if has_condition condition then Inr condition
      else Inr (no_condition\<lparr>eq := Some (Exact 0)\<rparr>))"



section \<open>Tests of one feature's statistics\<close>

text \<open>
  The \<^verbatim>\<open>get_condition\<close> methods of the subclasses of
  \<^verbatim>\<open>BaseFeatureDataQualityMetricsTest\<close>. \<^verbatim>\<open>column\<close> is
  \<^verbatim>\<open>self.column_name\<close> and \<^verbatim>\<open>condition\<close> is \<^verbatim>\<open>self.condition\<close>. Reading
  a column that the reference statistics do not have raises \<^verbatim>\<open>KeyError\<close>.
\<close>

definition neither_parameters_nor_reference :: string where
  "neither_parameters_nor_reference =
     ''Neither required test parameters nor reference data has been provided.''"

definition TestFeatureValueMin_get_condition ::
  "string \<Rightarrow> TestValueCondition \<Rightarrow> DataQualityMetricsResults \<Rightarrow> error + TestValueCondition" where
  "TestFeatureValueMin_get_condition column condition r =
     (if has_condition condition then Inr condition
      else case reference_features_stats r of
        None \<Rightarrow> Inl (ValueError neither_parameters_nor_reference)
      | Some ref_features_stats \<Rightarrow>
         (case ref_features_stats column of
            None \<Rightarrow> Inl (KeyError column)
          | Some stats \<Rightarrow>
             (case min_value stats of
                Some (Text s) \<Rightarrow> Inl (ValueError (column @ '' should be numerical or bool''))
              | Some (Number v) \<Rightarrow> Inr (no_condition\<lparr>gte := Some v\<rparr>)
              | None \<Rightarrow> Inr (no_condition\<lparr>gte := None\<rparr>))))"

definition TestFeatureValueMax_get_condition ::
  "string \<Rightarrow> TestValueCondition \<Rightarrow> DataQualityMetricsResults \<Rightarrow> error + TestValueCondition" where
  "TestFeatureValueMax_get_condition column condition r =
     (if has_condition condition then Inr condition
      else case reference_features_stats r of
        None \<Rightarrow> Inl (ValueError neither_parameters_nor_reference)
      | Some ref_features_stats \<Rightarrow>
         (case ref_features_stats column of
            None \<Rightarrow> Inl (KeyError column)
          | Some stats \<Rightarrow>
             (case max_value stats of
                Some (Text s) \<Rightarrow> Inl (ValueError (column @ '' should be numerical or bool''))
              | Some (Number v) \<Rightarrow> Inr (no_condition\<lparr>lte := Some v\<rparr>)
              | None \<Rightarrow> Inr (no_condition\<lparr>lte := None\<rparr>))))"

definition TestFeatureValueMean_get_condition ::
  "string \<Rightarrow> TestValueCondition \<Rightarrow> DataQualityMetricsResults \<Rightarrow> error + TestValueCondition" where
  "TestFeatureValueMean_get_condition column condition r =
     (if has_condition condition then Inr condition
      else case reference_features_stats r of
        None \<Rightarrow> Inl (ValueError neither_parameters_nor_reference)
      | Some ref_features_stats \<Rightarrow>
         (case ref_features_stats column of
            None \<Rightarrow> Inl (KeyError column)
          | Some stats \<Rightarrow>
             Inr (no_condition\<lparr>eq := Some (Approx (approx (mean stats) (Some 0.1) None))\<rparr>)))"

definition TestFeatureValueMedian_get_condition ::
  "string \<Rightarrow> TestValueCondition \<Rightarrow> DataQualityMetricsResults \<Rightarrow> error + TestValueCondition" where
  "TestFeatureValueMedian_get_condition column condition r =
     (if has_condition condition then Inr condition
      else case reference_features_stats r of
        None \<Rightarrow> Inl (ValueError neither_parameters_nor_reference)
      | Some ref_features_stats \<Rightarrow>
         (case ref_features_stats column of
            None \<Rightarrow> Inl (KeyError column)
          | Some stats \<Rightarrow>
             Inr (no_condition\<lparr>eq := Some (Approx (approx (percentile_50 stats) (Some 0.1) None))\<rparr>)))"

definition TestFeatureValueStd_get_condition ::
  "string \<Rightarrow> TestValueCondition \<Rightarrow> DataQualityMetricsResults \<Rightarrow> error + TestValueCondition" where
  "TestFeatureValueStd_get_condition column condition r =
     (if has_condition condition then Inr condition
      else case reference_features_stats r of
        None \<Rightarrow> Inl (ValueError neither_parameters_nor_reference)
      | Some ref_features_stats \<Rightarrow>
         (case ref_features_stats column of
            None \<Rightarrow> Inl (KeyError column)
          | Some stats \<Rightarrow>
             Inr (no_condition\<lparr>eq := Some (Approx (approx (std stats) (Some 0.1) None))\<rparr>)))"

definition TestNumberOfUniqueValues_get_condition ::
  "string \<Rightarrow> TestValueCondition \<Rightarrow> DataQualityMetricsResults \<Rightarrow> error + TestValueCondition" where
  "TestNumberOfUniqueValues_get_condition column condition r =
     (if has_condition condition then Inr condition
      else case reference_features_stats r of
        None \<Rightarrow> Inr (no_condition\<lparr>gt := Some 1\<rparr>)
      | Some ref_features_stats \<Rightarrow>
         (case ref_features_stats column of
            None \<Rightarrow> Inl (KeyError column)
          | Some stats \<Rightarrow>
             Inr (no_condition\<lparr>eq := Some (Approx (approx (unique_count stats) (Some 0.1) None))\<rparr>)))"

definition TestUniqueValuesShare_get_condition ::
  "string \<Rightarrow> TestValueCondition \<Rightarrow> DataQualityMetricsResults \<Rightarrow> error + TestValueCondition" where
  "TestUniqueValuesShare_get_condition column condition r =
     (if has_condition condition then Inr condition
      else case reference_features_stats r of
        None \<Rightarrow> Inl (ValueError neither_parameters_nor_reference)
      | Some ref_features_stats \<Rightarrow>
         (case ref_features_stats column of
            None \<Rightarrow> Inl (KeyError column)
          | Some stats \<Rightarrow>
             (case unique_percentage stats of
                Some p \<Rightarrow>
                  Inr (no_condition\<lparr>eq := Some (Approx (approx (Some (p / 100)) (Some 0.1) None))\<rparr>)
              | None \<Rightarrow> Inl (ValueError neither_parameters_nor_reference))))"

definition TestMostCommonValueShare_get_condition ::
  "string \<Rightarrow> TestValueCondition \<Rightarrow> DataQualityMetricsResults \<Rightarrow> error + TestValueCondition" where
  "TestMostCommonValueShare_get_condition column condition r =
     (if has_condition condition then Inr condition
      else case reference_features_stats r of
        None \<Rightarrow> Inr (no_condition\<lparr>lt := Some 0.8\<rparr>)
      | Some ref_features_stats \<Rightarrow>
         (case ref_features_stats column of
            None \<Rightarrow> Inl (KeyError column)
          | Some stats \<Rightarrow>
             (case most_common_value_percentage stats of
                Some p \<Rightarrow>
                  Inr (no_condition\<lparr>eq := Some (Approx (approx (Some (p / 100)) (Some 0.1) None))\<rparr>)
              | None \<Rightarrow> Inr (no_condition\<lparr>lt := Some 0.8\<rparr>))))"


text \<open>
  \<^verbatim>\<open>BaseFeatureDataQualityMetricsTest.check\<close>. \<^verbatim>\<open>super_check\<close> is the outcome
  of \<^verbatim>\<open>super().check()\<close>, the check of the base class: the result it returns and
  the value it leaves in \<^verbatim>\<open>self.value\<close>, or the exception it raises. A fresh
  \<^verbatim>\<open>TestResult\<close> has no groups.
\<close>

definition feature_not_found :: "string \<Rightarrow> fragment list" where
  "feature_not_found column = [Lit (''Feature '' @ [CHR 0x27] @ column @ [CHR 0x27] @ '' was not found'')]"

definition no_value_for_feature :: "string \<Rightarrow> fragment list" where
  "no_value_for_feature column = [Lit (''No value for the feature '' @ [CHR 0x27] @ column @ [CHR 0x27])]"

definition BaseFeatureDataQualityMetricsTest_check ::
  "string \<Rightarrow> string \<Rightarrow> DataQualityMetricsResults \<Rightarrow> (error + string TestResult \<times> real option) \<Rightarrow>
   error + string TestResult" where
  "BaseFeatureDataQualityMetricsTest_check test_name column r super_check =
     (let result = \<lparr>name = test_name, description = [Lit ''The test was not launched''],
                    status = SKIPPED, groups = []\<rparr>
      in if features_stats r column = None
         then Inr (mark_as_fail (feature_not_found column) result)
         else case super_check of
                Inl e \<Rightarrow> Inl e
              | Inr (result, v) \<Rightarrow>
                  if v = None then Inr (mark_as_error (no_value_for_feature column) result)
                  else Inr result)"

section \<open>Tests of values out of a range or out of a list, and of a quantile\<close>

text \<open>
  The four tests of \<^verbatim>\<open>BaseDataQualityValueRangeMetricsTest\<close> and
  \<^verbatim>\<open>BaseDataQualityValueListMetricsTest\<close> do not read the metric result in
  \<^verbatim>\<open>get_condition\<close>.
\<close>

definition TestNumberOfOutRangeValues_get_condition :: "TestValueCondition \<Rightarrow> error + TestValueCondition" where
  "TestNumberOfOutRangeValues_get_condition condition =
     (if has_condition condition then Inr condition
      else Inr (no_condition\<lparr>eq := Some (Approx (approx (Some 0) None None))\<rparr>))"

definition TestShareOfOutRangeValues_get_condition :: "TestValueCondition \<Rightarrow> error + TestValueCondition" where
  "TestShareOfOutRangeValues_get_condition condition =
     (if has_condition condition then Inr condition
      else Inr (no_condition\<lparr>eq := Some (Approx (approx (Some 0) None None))\<rparr>))"

definition TestNumberOfOutListValues_get_condition :: "TestValueCondition \<Rightarrow> error + TestValueCondition" where
  "TestNumberOfOutListValues_get_condition condition =
     (if has_condition condition then Inr condition
      else Inr (no_condition\<lparr>eq := Some (Approx (approx (Some 0) None None))\<rparr>))"

definition TestShareOfOutListValues_get_condition :: "TestValueCondition \<Rightarrow> error + TestValueCondition" where
  "TestShareOfOutListValues_get_condition condition =
     (if has_condition condition then Inr condition
      else Inr (no_condition\<lparr>eq := Some (Approx (approx (Some 0) None None))\<rparr>))"




record DataQualityValueQuantileMetricsResults =
  current_value :: real
  ref_value :: "real option"




definition TestValueQuantile_get_condition ::
  "TestValueCondition \<Rightarrow> DataQualityValueQuantileMetricsResults \<Rightarrow> error + TestValueCondition" where
  "TestValueQuantile_get_condition condition r =
     (if has_condition condition then Inr condition
      else case ref_value r of
        Some v \<Rightarrow> Inr (no_condition\<lparr>eq := Some (Approx (approx (Some v) (Some 0.1) None))\<rparr>)
      | None \<Rightarrow> Inl (ValueError neither_parameters_nor_reference))"

section \<open>TestValueRange and TestValueList\<close>





section \<open>Tests of conflicts in target and prediction\<close>




section \<open>The check of the base class\<close>


section \<open>Example inputs\<close>

text \<open>Statistics of a column of which only the mean and the standard deviation matter.\<close>

definition stats_with_mean :: "real option \<Rightarrow> real option \<Rightarrow> FeatureQualityStats" where
  "stats_with_mean m s =
     \<lparr>min_value = None, max_value = None, mean = m, percentile_50 = None, std = s,
      unique_count = None, unique_percentage = None, most_common_value_percentage = None\<rparr>"

text \<open>Correlation figures of which only the largest correlation of the numeric features matters.\<close>

definition correlations_with :: "real option \<Rightarrow> DataCorrelation" where
  "correlations_with v =
     \<lparr>target_prediction_correlation = None, abs_max_num_features_correlation = v,
      abs_max_target_features_correlation = None,
      abs_max_prediction_features_correlation = None, correlation_matrix = []\<rparr>"

section \<open>Properties\<close>

lemmas get_condition_defs =
  TestTargetPredictionCorrelation_get_condition_def TestHighlyCorrelatedFeatures_get_condition_def
  TestTargetFeaturesCorrelations_get_condition_def TestPredictionFeaturesCorrelations_get_condition_def
  TestCorrelationChanges_get_condition_def
  TestFeatureValueMin_get_condition_def TestFeatureValueMax_get_condition_def
  TestFeatureValueMean_get_condition_def TestFeatureValueMedian_get_condition_def
  TestFeatureValueStd_get_condition_def TestNumberOfUniqueValues_get_condition_def
  TestUniqueValuesShare_get_condition_def TestMostCommonValueShare_get_condition_def
  TestNumberOfOutRangeValues_get_condition_def TestShareOfOutRangeValues_get_condition_def
  TestNumberOfOutListValues_get_condition_def TestShareOfOutListValues_get_condition_def
  TestValueQuantile_get_condition_def

subsection \<open>A feature that the current statistics do not have\<close>

text \<open>
  Claim C1, as amended. When the column of a test derived from
  \<^verbatim>\<open>BaseFeatureDataQualityMetricsTest\<close> is not among the feature statistics of the
  computed metric result, \<^verbatim>\<open>check()\<close> returns a result (it raises nothing, and
  does not reach the check of the base class) whose description is
  \<^verbatim>\<open>Feature '<column>' was not found\<close> and whose status is FAIL: the result starts
  as SKIPPED and is then marked as failed.
\<close>

theorem missing_feature_is_marked_fail:
  assumes "features_stats r column = None"
  shows "BaseFeatureDataQualityMetricsTest_check test_name column r super_check =
           Inr \<lparr>name = test_name, description = feature_not_found column, status = FAIL,
                groups = []\<rparr>"
  using assms by (simp add: BaseFeatureDataQualityMetricsTest_check_def mark_as_fail_def)

theorem missing_feature_is_marked_fail_witness:
  "features_stats \<lparr>features_stats = [''age'' \<mapsto> stats_with_mean (Some 1) None],
                   reference_features_stats = None\<rparr> ''region'' = None
   \<and> BaseFeatureDataQualityMetricsTest_check ''Mean Value'' ''region''
        \<lparr>features_stats = [''age'' \<mapsto> stats_with_mean (Some 1) None],
         reference_features_stats = None\<rparr> (Inl TypeError) =
           Inr \<lparr>name = ''Mean Value'', description = feature_not_found ''region'', status = FAIL,
                groups = []\<rparr>"
  using missing_feature_is_marked_fail
    [of "\<lparr>features_stats = [''age'' \<mapsto> stats_with_mean (Some 1) None],
         reference_features_stats = None\<rparr>" "''region''" "''Mean Value''" "Inl TypeError"]
  by simp

text \<open>
  Claim C1 as stated asks for the status SKIPPED. A mean test of the column
  \<^verbatim>\<open>region\<close>, over a dataset whose only column is \<^verbatim>\<open>age\<close>, is marked FAIL.
\<close>

theorem missing_feature_not_skipped:
  "BaseFeatureDataQualityMetricsTest_check ''Mean Value'' ''region''
        \<lparr>features_stats = [''age'' \<mapsto> stats_with_mean (Some 1) None],
         reference_features_stats = None\<rparr> (Inl TypeError) =
     Inr \<lparr>name = ''Mean Value'',
          description = [Lit (''Feature '' @ [CHR 0x27] @ ''region'' @ [CHR 0x27] @ '' was not found'')],
          status = FAIL, groups = []\<rparr>
   \<and> FAIL \<noteq> SKIPPED"
  by (simp add: BaseFeatureDataQualityMetricsTest_check_def mark_as_fail_def feature_not_found_def)

subsection \<open>An explicit condition wins\<close>

text \<open>
  Claim C2. If a condition field was given at construction, \<^verbatim>\<open>get_condition()\<close>
  of every test of the module that has the method returns the constructed condition
  unchanged, whatever the metric result holds, with or without reference data. (The
  other tests of the module, \<^verbatim>\<open>TestConflictTarget\<close>,
  \<^verbatim>\<open>TestConflictPrediction\<close>, \<^verbatim>\<open>TestMeanInNSigmas\<close>, \<^verbatim>\<open>TestValueRange\<close>
  and \<^verbatim>\<open>TestValueList\<close>, take no condition.)
\<close>

theorem explicit_condition_is_returned:
  assumes "has_condition c"
  shows "(\<forall>r. TestTargetPredictionCorrelation_get_condition c r = Inr c)
       \<and> (\<forall>r. TestHighlyCorrelatedFeatures_get_condition c r = Inr c)
       \<and> (\<forall>r. TestTargetFeaturesCorrelations_get_condition c r = Inr c)
       \<and> (\<forall>r. TestPredictionFeaturesCorrelations_get_condition c r = Inr c)
       \<and> (\<forall>r. TestCorrelationChanges_get_condition c r = Inr c)
       \<and> (\<forall>column r. TestFeatureValueMin_get_condition column c r = Inr c)
       \<and> (\<forall>column r. TestFeatureValueMax_get_condition column c r = Inr c)
       \<and> (\<forall>column r. TestFeatureValueMean_get_condition column c r = Inr c)
       \<and> (\<forall>column r. TestFeatureValueMedian_get_condition column c r = Inr c)
       \<and> (\<forall>column r. TestFeatureValueStd_get_condition column c r = Inr c)
       \<and> (\<forall>column r. TestNumberOfUniqueValues_get_condition column c r = Inr c)
       \<and> (\<forall>column r. TestUniqueValuesShare_get_condition column c r = Inr c)
       \<and> (\<forall>column r. TestMostCommonValueShare_get_condition column c r = Inr c)
       \<and> TestNumberOfOutRangeValues_get_condition c = Inr c
       \<and> TestShareOfOutRangeValues_get_condition c = Inr c
       \<and> TestNumberOfOutListValues_get_condition c = Inr c
       \<and> TestShareOfOutListValues_get_condition c = Inr c
       \<and> (\<forall>r. TestValueQuantile_get_condition c r = Inr c)"
  using assms by (simp add: get_condition_defs)

theorem explicit_condition_is_returned_witness:
  "has_condition (BaseCheckValueTest_init None (Some 0) None None None None None None)
   \<and> (\<forall>r. TestTargetPredictionCorrelation_get_condition
            (BaseCheckValueTest_init None (Some 0) None None None None None None) r
          = Inr (BaseCheckValueTest_init None (Some 0) None None None None None None))
   \<and> (\<forall>column r. TestFeatureValueMin_get_condition column
            (BaseCheckValueTest_init None (Some 0) None None None None None None) r
          = Inr (BaseCheckValueTest_init None (Some 0) None None None None None None))
   \<and> (\<forall>r. TestValueQuantile_get_condition
            (BaseCheckValueTest_init None (Some 0) None None None None None None) r
          = Inr (BaseCheckValueTest_init None (Some 0) None None None None None None))"
  using explicit_condition_is_returned
    [of "BaseCheckValueTest_init None (Some 0) None None None None None None"]
  by (simp add: has_condition_def BaseCheckValueTest_init_def)

subsection \<open>The mean within n sigmas\<close>

text \<open>
  Claim C3. With \<^verbatim>\<open>n_sigmas = 2\<close>, a column present in both datasets, a reference
  mean of 10 and a reference standard deviation of 2, the accepted range is from 6 to
  14: a current mean of 13 gives SUCCESS, a current mean of 15 gives FAIL.
\<close>

theorem mean_in_two_sigmas_example:
  assumes "reference_features_stats r = Some reference_stats"
    and "features_stats r (column_name self) = Some cur"
    and "reference_stats (column_name self) = Some ref"
    and "mean ref = Some 10" and "std ref = Some 2" and "n_sigmas self = 2"
  shows "(mean cur = Some 13 \<longrightarrow>
            TestMeanInNSigmas_check self r =
              Inr \<lparr>name = TestMeanInNSigmas_name,
                   description = mean_description (column_name self) 13 6 14,
                   status = SUCCESS,
                   groups = [(ByFeature_id, column_name self)]\<rparr>)
       \<and> (mean cur = Some 15 \<longrightarrow>
            TestMeanInNSigmas_check self r =
              Inr \<lparr>name = TestMeanInNSigmas_name,
                   description = mean_description (column_name self) 15 6 14,
                   status = FAIL,
                   groups = [(ByFeature_id, column_name self)]\<rparr>)"
  using assms by (simp add: TestMeanInNSigmas_check_def)

theorem mean_in_two_sigmas_example_witness:
  "TestMeanInNSigmas_check (TestMeanInNSigmas_init ''age'' 2 None)
      \<lparr>features_stats = [''age'' \<mapsto> stats_with_mean (Some 13) (Some 1)],
       reference_features_stats = Some [''age'' \<mapsto> stats_with_mean (Some 10) (Some 2)]\<rparr>
     = Inr \<lparr>name = TestMeanInNSigmas_name, description = mean_description ''age'' 13 6 14,
            status = SUCCESS, groups = [(ByFeature_id, ''age'')]\<rparr>
   \<and> TestMeanInNSigmas_check (TestMeanInNSigmas_init ''age'' 2 None)
      \<lparr>features_stats = [''age'' \<mapsto> stats_with_mean (Some 15) (Some 1)],
       reference_features_stats = Some [''age'' \<mapsto> stats_with_mean (Some 10) (Some 2)]\<rparr>
     = Inr \<lparr>name = TestMeanInNSigmas_name, description = mean_description ''age'' 15 6 14,
            status = FAIL, groups = [(ByFeature_id, ''age'')]\<rparr>"
  using mean_in_two_sigmas_example
     [of "\<lparr>features_stats = [''age'' \<mapsto> stats_with_mean (Some 13) (Some 1)],
       reference_features_stats = Some [''age'' \<mapsto> stats_with_mean (Some 10) (Some 2)]\<rparr>"
         "[''age'' \<mapsto> stats_with_mean (Some 10) (Some 2)]"
         "TestMeanInNSigmas_init ''age'' 2 None"
         "stats_with_mean (Some 13) (Some 1)" "stats_with_mean (Some 10) (Some 2)"]
    mean_in_two_sigmas_example
     [of "\<lparr>features_stats = [''age'' \<mapsto> stats_with_mean (Some 15) (Some 1)],
       reference_features_stats = Some [''age'' \<mapsto> stats_with_mean (Some 10) (Some 2)]\<rparr>"
         "[''age'' \<mapsto> stats_with_mean (Some 10) (Some 2)]"
         "TestMeanInNSigmas_init ''age'' 2 None"
         "stats_with_mean (Some 15) (Some 1)" "stats_with_mean (Some 10) (Some 2)"]
  by (simp add: TestMeanInNSigmas_init_def stats_with_mean_def)



subsection \<open>One test for each numeric column\<close>

text \<open>
  Claim C4. \<^verbatim>\<open>TestNumColumnsMeanInNSigmas.generate_tests\<close> on a catalogue whose
  numeric features are \<^verbatim>\<open>age\<close> and \<^verbatim>\<open>income\<close> returns two tests, for
  \<^verbatim>\<open>age\<close> and then for \<^verbatim>\<open>income\<close>, each with \<^verbatim>\<open>n_sigmas = 2\<close>; for every
  catalogue the tests are one for each numeric feature name, in the order of the
  catalogue, each with \<^verbatim>\<open>n_sigmas = 2\<close>.
\<close>

theorem generate_tests_one_per_numeric_column:
  "TestNumColumnsMeanInNSigmas_generate_tests
      \<lparr>num_feature_names = [''age'', ''income''], cat_feature_names = cats\<rparr>
     = [TestMeanInNSigmas_init ''age'' 2 None, TestMeanInNSigmas_init ''income'' 2 None]
   \<and> column_name (TestMeanInNSigmas_init ''age'' 2 None) = ''age''
   \<and> column_name (TestMeanInNSigmas_init ''income'' 2 None) = ''income''
   \<and> map column_name (TestNumColumnsMeanInNSigmas_generate_tests columns_info)
       = num_feature_names columns_info
   \<and> map n_sigmas (TestNumColumnsMeanInNSigmas_generate_tests columns_info)
       = replicate (length (num_feature_names columns_info)) 2
   \<and> length (TestNumColumnsMeanInNSigmas_generate_tests columns_info)
       = length (num_feature_names columns_info)"
  by (simp add: TestNumColumnsMeanInNSigmas_generate_tests_def TestMeanInNSigmas_init_def
      comp_def map_replicate_const)

subsection \<open>Conditions derived without an explicit one\<close>

text \<open>
  Claim C6, evaluated where the code departs from it. A minimum test of the column
  \<^verbatim>\<open>city\<close>, built with no condition, over a metric result that has reference
  statistics for the column but no minimum in them (\<^verbatim>\<open>None\<close>, as for a categorical
  column): \<^verbatim>\<open>get_condition()\<close> returns \<^verbatim>\<open>TestValueCondition(gte=None)\<close>, a
  condition with no field set, where the claim has a fixed default or an error.
\<close>

theorem min_of_undefined_reference_is_empty:
  "TestFeatureValueMin_get_condition ''city'' no_condition
      \<lparr>features_stats = [''city'' \<mapsto> stats_with_mean None None],
       reference_features_stats = Some [''city'' \<mapsto> stats_with_mean None None]\<rparr>
     = Inr no_condition
   \<and> \<not> has_condition no_condition"
  by (simp add: TestFeatureValueMin_get_condition_def has_condition_def no_condition_def
      stats_with_mean_def)

theorem min_of_undefined_reference_is_empty_witness:
  "TestFeatureValueMin_get_condition ''city'' no_condition
      \<lparr>features_stats = [''city'' \<mapsto> stats_with_mean None None],
       reference_features_stats = Some [''city'' \<mapsto> stats_with_mean None None]\<rparr>
     = Inr \<lparr>eq = None, gt = None, gte = None, is_in = None, lt = None, lte = None,
            not_eq = None, not_in = None\<rparr>"
  using min_of_undefined_reference_is_empty by (simp add: no_condition_def)

text \<open>
  What holds of claim C6 when the metric result has no reference part at all: every
  test built with no condition returns its fixed default or raises the
  \<^verbatim>\<open>ValueError\<close> that asks for parameters or reference data.
\<close>

lemma no_reference_gives_default_or_error:
  assumes "\<not> has_condition c"
  shows "(\<forall>r. reference r = None \<longrightarrow>
            TestTargetPredictionCorrelation_get_condition c r = Inr (no_condition\<lparr>gt := Some 0\<rparr>)
          \<and> TestHighlyCorrelatedFeatures_get_condition c r = Inr (no_condition\<lparr>lt := Some 0.9\<rparr>)
          \<and> TestTargetFeaturesCorrelations_get_condition c r = Inr (no_condition\<lparr>lt := Some 0.9\<rparr>)
          \<and> TestPredictionFeaturesCorrelations_get_condition c r
              = Inr (no_condition\<lparr>lt := Some 0.9\<rparr>))
       \<and> (\<forall>column r. reference_features_stats r = None \<longrightarrow>
            TestFeatureValueMin_get_condition column c r
              = Inl (ValueError neither_parameters_nor_reference)
          \<and> TestFeatureValueMax_get_condition column c r
              = Inl (ValueError neither_parameters_nor_reference)
          \<and> TestFeatureValueMean_get_condition column c r
              = Inl (ValueError neither_parameters_nor_reference)
          \<and> TestFeatureValueMedian_get_condition column c r
              = Inl (ValueError neither_parameters_nor_reference)
          \<and> TestFeatureValueStd_get_condition column c r
              = Inl (ValueError neither_parameters_nor_reference)
          \<and> TestNumberOfUniqueValues_get_condition column c r = Inr (no_condition\<lparr>gt := Some 1\<rparr>)
          \<and> TestUniqueValuesShare_get_condition column c r
              = Inl (ValueError neither_parameters_nor_reference)
          \<and> TestMostCommonValueShare_get_condition column c r
              = Inr (no_condition\<lparr>lt := Some 0.8\<rparr>))
       \<and> (\<forall>r. ref_value r = None \<longrightarrow>
            TestValueQuantile_get_condition c r
              = Inl (ValueError neither_parameters_nor_reference))"
  using assms by (simp add: get_condition_defs)

text \<open>
  Claim C7, as amended. For a test built with no condition, when the reference part of
  the metric result has a value for the statistic the test checks,
  \<^verbatim>\<open>get_condition()\<close> returns: for the correlation between target and prediction,
  equality with the reference value within an absolute tolerance of 0.25; for the
  three other correlation maxima, the mean, the median, the standard deviation, the
  number of unique values, the share of unique values, the share of the most common
  value (both shares being the reference percentage divided by 100) and the quantile,
  equality with the reference value within a relative tolerance of 0.1; for the
  minimum, \<^verbatim>\<open>gte\<close> the reference minimum, and for the maximum, \<^verbatim>\<open>lte\<close> the
  reference maximum, when that is a number. \<^verbatim>\<open>TestCorrelationChanges\<close> returns
  \<^verbatim>\<open>eq=0\<close> and the four tests of values out of a range or a list return
  \<^verbatim>\<open>eq=approx(0)\<close>, whatever the reference holds. Every one of these conditions is
  read from the reference part only: two metric results with the same reference part
  give the same outcome.
\<close>

theorem conditions_derived_from_reference:
  assumes "\<not> has_condition c"
  shows "(\<forall>r rc v. reference r = Some rc \<and> target_prediction_correlation rc = Some v \<longrightarrow>
            TestTargetPredictionCorrelation_get_condition c r
              = Inr (no_condition\<lparr>eq := Some (Approx (approx (Some v) None (Some 0.25)))\<rparr>))
       \<and> (\<forall>r rc v. reference r = Some rc \<and> abs_max_num_features_correlation rc = Some v \<longrightarrow>
            TestHighlyCorrelatedFeatures_get_condition c r
              = Inr (no_condition\<lparr>eq := Some (Approx (approx (Some v) (Some 0.1) None))\<rparr>))
       \<and> (\<forall>r rc v. reference r = Some rc \<and> abs_max_target_features_correlation rc = Some v \<longrightarrow>
            TestTargetFeaturesCorrelations_get_condition c r
              = Inr (no_condition\<lparr>eq := Some (Approx (approx (Some v) (Some 0.1) None))\<rparr>))
       \<and> (\<forall>r rc v. reference r = Some rc \<and> abs_max_prediction_features_correlation rc = Some v \<longrightarrow>
            TestPredictionFeaturesCorrelations_get_condition c r
              = Inr (no_condition\<lparr>eq := Some (Approx (approx (Some v) (Some 0.1) None))\<rparr>))
       \<and> (\<forall>column r rs st v. reference_features_stats r = Some rs \<and> rs column = Some st
              \<and> mean st = Some v \<longrightarrow>
            TestFeatureValueMean_get_condition column c r
              = Inr (no_condition\<lparr>eq := Some (Approx (approx (Some v) (Some 0.1) None))\<rparr>))
       \<and> (\<forall>column r rs st v. reference_features_stats r = Some rs \<and> rs column = Some st
              \<and> percentile_50 st = Some v \<longrightarrow>
            TestFeatureValueMedian_get_condition column c r
              = Inr (no_condition\<lparr>eq := Some (Approx (approx (Some v) (Some 0.1) None))\<rparr>))
       \<and> (\<forall>column r rs st v. reference_features_stats r = Some rs \<and> rs column = Some st
              \<and> std st = Some v \<longrightarrow>
            TestFeatureValueStd_get_condition column c r
              = Inr (no_condition\<lparr>eq := Some (Approx (approx (Some v) (Some 0.1) None))\<rparr>))
       \<and> (\<forall>column r rs st v. reference_features_stats r = Some rs \<and> rs column = Some st
              \<and> unique_count st = Some v \<longrightarrow>
            TestNumberOfUniqueValues_get_condition column c r
              = Inr (no_condition\<lparr>eq := Some (Approx (approx (Some v) (Some 0.1) None))\<rparr>))
       \<and> (\<forall>column r rs st p. reference_features_stats r = Some rs \<and> rs column = Some st
              \<and> unique_percentage st = Some p \<longrightarrow>
            TestUniqueValuesShare_get_condition column c r
              = Inr (no_condition\<lparr>eq := Some (Approx (approx (Some (p / 100)) (Some 0.1) None))\<rparr>))
       \<and> (\<forall>column r rs st p. reference_features_stats r = Some rs \<and> rs column = Some st
              \<and> most_common_value_percentage st = Some p \<longrightarrow>
            TestMostCommonValueShare_get_condition column c r
              = Inr (no_condition\<lparr>eq := Some (Approx (approx (Some (p / 100)) (Some 0.1) None))\<rparr>))
       \<and> (\<forall>r v. ref_value r = Some v \<longrightarrow>
            TestValueQuantile_get_condition c r
              = Inr (no_condition\<lparr>eq := Some (Approx (approx (Some v) (Some 0.1) None))\<rparr>))
       \<and> (\<forall>column r rs st v. reference_features_stats r = Some rs \<and> rs column = Some st
              \<and> min_value st = Some (Number v) \<longrightarrow>
            TestFeatureValueMin_get_condition column c r = Inr (no_condition\<lparr>gte := Some v\<rparr>))
       \<and> (\<forall>column r rs st v. reference_features_stats r = Some rs \<and> rs column = Some st
              \<and> max_value st = Some (Number v) \<longrightarrow>
            TestFeatureValueMax_get_condition column c r = Inr (no_condition\<lparr>lte := Some v\<rparr>))
       \<and> (\<forall>r. TestCorrelationChanges_get_condition c r = Inr (no_condition\<lparr>eq := Some (Exact 0)\<rparr>))
       \<and> TestNumberOfOutRangeValues_get_condition c
            = Inr (no_condition\<lparr>eq := Some (Approx (approx (Some 0) None None))\<rparr>)
       \<and> TestShareOfOutRangeValues_get_condition c
            = Inr (no_condition\<lparr>eq := Some (Approx (approx (Some 0) None None))\<rparr>)
       \<and> TestNumberOfOutListValues_get_condition c
            = Inr (no_condition\<lparr>eq := Some (Approx (approx (Some 0) None None))\<rparr>)
       \<and> TestShareOfOutListValues_get_condition c
            = Inr (no_condition\<lparr>eq := Some (Approx (approx (Some 0) None None))\<rparr>)
       \<and> (\<forall>r r'. reference r = reference r' \<longrightarrow>
       TestTargetPredictionCorrelation_get_condition c r
         = TestTargetPredictionCorrelation_get_condition c r'
     \<and> TestHighlyCorrelatedFeatures_get_condition c r
         = TestHighlyCorrelatedFeatures_get_condition c r'
     \<and> TestTargetFeaturesCorrelations_get_condition c r
         = TestTargetFeaturesCorrelations_get_condition c r'
     \<and> TestPredictionFeaturesCorrelations_get_condition c r
         = TestPredictionFeaturesCorrelations_get_condition c r'
     \<and> TestCorrelationChanges_get_condition c r = TestCorrelationChanges_get_condition c r')
   \<and> (\<forall>column r r'. reference_features_stats r = reference_features_stats r' \<longrightarrow>
       TestFeatureValueMin_get_condition column c r = TestFeatureValueMin_get_condition column c r'
     \<and> TestFeatureValueMax_get_condition column c r = TestFeatureValueMax_get_condition column c r'
     \<and> TestFeatureValueMean_get_condition column c r = TestFeatureValueMean_get_condition column c r'
     \<and> TestFeatureValueMedian_get_condition column c r
         = TestFeatureValueMedian_get_condition column c r'
     \<and> TestFeatureValueStd_get_condition column c r = TestFeatureValueStd_get_condition column c r'
     \<and> TestNumberOfUniqueValues_get_condition column c r
         = TestNumberOfUniqueValues_get_condition column c r'
     \<and> TestUniqueValuesShare_get_condition column c r
         = TestUniqueValuesShare_get_condition column c r'
     \<and> TestMostCommonValueShare_get_condition column c r
         = TestMostCommonValueShare_get_condition column c r')
   \<and> (\<forall>r r'. ref_value r = ref_value r' \<longrightarrow>
       TestValueQuantile_get_condition c r = TestValueQuantile_get_condition c r')"
  using assms by (simp add: get_condition_defs)

theorem conditions_derived_from_reference_witness:
  "\<not> has_condition no_condition
   \<and> TestHighlyCorrelatedFeatures_get_condition no_condition
        \<lparr>current = correlations_with (Some 0.2), reference = Some (correlations_with (Some 0.5))\<rparr>
       = Inr (no_condition\<lparr>eq := Some (Approx (approx (Some 0.5) (Some 0.1) None))\<rparr>)
   \<and> TestFeatureValueMean_get_condition ''age'' no_condition
        \<lparr>features_stats = [''age'' \<mapsto> stats_with_mean (Some 13) (Some 1)],
         reference_features_stats = Some [''age'' \<mapsto> stats_with_mean (Some 10) (Some 2)]\<rparr>
       = Inr (no_condition\<lparr>eq := Some (Approx (approx (Some 10) (Some 0.1) None))\<rparr>)
   \<and> TestValueQuantile_get_condition no_condition \<lparr>current_value = 3, ref_value = Some 4\<rparr>
       = Inr (no_condition\<lparr>eq := Some (Approx (approx (Some 4) (Some 0.1) None))\<rparr>)"
  using conditions_derived_from_reference [of no_condition]
  by (simp add: get_condition_defs has_condition_def no_condition_def correlations_with_def
      stats_with_mean_def)

text \<open>
  Claim C7 as stated has an approximate equality for every test. A minimum test of the
  column \<^verbatim>\<open>age\<close>, built with no condition, over reference statistics with the
  minimum 18: the condition is \<^verbatim>\<open>gte=18\<close>, and \<^verbatim>\<open>eq\<close> is not set.
\<close>

theorem min_condition_is_a_bound:
  "TestFeatureValueMin_get_condition ''age'' no_condition
      \<lparr>features_stats = [''age'' \<mapsto> stats_with_mean (Some 40) (Some 5)],
       reference_features_stats =
         Some [''age'' \<mapsto> (stats_with_mean (Some 40) (Some 5))\<lparr>min_value := Some (Number 18)\<rparr>]\<rparr>
     = Inr (no_condition\<lparr>gte := Some 18\<rparr>)
   \<and> eq (no_condition\<lparr>gte := Some 18\<rparr>) = None"
  by (simp add: TestFeatureValueMin_get_condition_def has_condition_def no_condition_def
      stats_with_mean_def)

subsection \<open>Inputs that are missing when the check runs\<close>




subsection \<open>Groups\<close>







subsection \<open>The constructor of the quantile test\<close>



end
